theory Spec2Isabelle
  imports Main "HOL-Library.Log_Nat" "HOL-Library.Sublist"
begin

section \<open>JavaScript numbers\<close>

text \<open>
  The program is TypeScript; every \<open>number\<close> is an IEEE 754 binary64 value. A finite value
  is carried by the rational it denotes; the three special values are constructors.
  The two zeros are identified: nothing in the modelled code divides by a value that could
  be a negative zero, and \<open>Math.max\<close>, \<open>toFixed\<close> and string conversion print both zeros
  alike.
\<close>

datatype jsnum = NaN | PInf | NInf | Fin rat

definition pow2 :: "int \<Rightarrow> rat" where
  "pow2 e = (if 0 \<le> e then 2 ^ nat e else 1 / 2 ^ nat (- e))"

text \<open>\<open>ilog2 a\<close> is the integer \<open>e\<close> with \<open>2^e \<le> a < 2^(e+1)\<close>, for positive \<open>a\<close>.\<close>

definition ilog2 :: "rat \<Rightarrow> int" where
  "ilog2 a = (case quotient_of a of (n, d) \<Rightarrow>
     (let e = bitlen n - bitlen d in if pow2 e \<le> a then e else e - 1))"

text \<open>Rounding a non-negative rational to the nearest integer, ties to the even one.\<close>

definition round_half_even :: "rat \<Rightarrow> int" where
  "round_half_even r = (let f = \<lfloor>r\<rfloor>; d = r - of_int f in
     if d < 1 / 2 then f else if 1 / 2 < d then f + 1 else if even f then f else f + 1)"

text \<open>
  \<open>fl q\<close> is the binary64 value nearest to the rational \<open>q\<close> (round to nearest, ties to
  even): 53 significant bits for a normal result, the fixed quantum \<open>2^-1074\<close> below
  \<open>2^-1022\<close>, and an infinity once the rounded magnitude reaches \<open>2^1024\<close>.
\<close>

definition fl :: "rat \<Rightarrow> jsnum" where
  "fl q = (if q = 0 then Fin 0 else
     (let a = \<bar>q\<bar>;
          e = max (ilog2 a) (- 1022);
          m = round_half_even (a / pow2 (e - 52))
      in if 1023 < e \<or> (e = 1023 \<and> 2 ^ 53 \<le> m)
         then (if 0 < q then PInf else NInf)
         else Fin (sgn q * of_int m * pow2 (e - 52))))"

text \<open>A decimal literal of the source denotes the double nearest to it.\<close>

definition lit :: "rat \<Rightarrow> jsnum" where
  "lit q = fl q"

text \<open>The \<open>+\<close> of two numbers.\<close>

fun js_add :: "jsnum \<Rightarrow> jsnum \<Rightarrow> jsnum" where
  "js_add NaN _ = NaN"
| "js_add _ NaN = NaN"
| "js_add PInf NInf = NaN"
| "js_add NInf PInf = NaN"
| "js_add PInf _ = PInf"
| "js_add _ PInf = PInf"
| "js_add NInf _ = NInf"
| "js_add _ NInf = NInf"
| "js_add (Fin a) (Fin b) = fl (a + b)"

text \<open>
  The \<open>/\<close> of two numbers. A zero divisor is the positive zero: the only divisor in the
  program is an array length.
\<close>

fun js_div :: "jsnum \<Rightarrow> jsnum \<Rightarrow> jsnum" where
  "js_div NaN _ = NaN"
| "js_div _ NaN = NaN"
| "js_div (Fin a) (Fin b) =
     (if b = 0 then (if a = 0 then NaN else if 0 < a then PInf else NInf)
      else fl (a / b))"
| "js_div (Fin a) _ = Fin 0"
| "js_div PInf (Fin b) = (if 0 \<le> b then PInf else NInf)"
| "js_div NInf (Fin b) = (if 0 \<le> b then NInf else PInf)"
| "js_div _ _ = NaN"

text \<open>The comparisons \<open><=\<close> and \<open><\<close>; both are false when an operand is \<open>NaN\<close>.\<close>

fun js_le :: "jsnum \<Rightarrow> jsnum \<Rightarrow> bool" where
  "js_le NaN _ = False"
| "js_le _ NaN = False"
| "js_le NInf _ = True"
| "js_le _ PInf = True"
| "js_le (Fin a) (Fin b) = (a \<le> b)"
| "js_le _ _ = False"

fun js_lt :: "jsnum \<Rightarrow> jsnum \<Rightarrow> bool" where
  "js_lt NaN _ = False"
| "js_lt _ NaN = False"
| "js_lt PInf _ = False"
| "js_lt _ NInf = False"
| "js_lt NInf _ = True"
| "js_lt _ PInf = True"
| "js_lt (Fin a) (Fin b) = (a < b)"

text \<open>
  \<open>Math.max(...xs)\<close>: the result starts at \<open>-Infinity\<close>; a \<open>NaN\<close> argument makes the
  result \<open>NaN\<close>; otherwise the largest argument is returned.
\<close>

definition max2 :: "jsnum \<Rightarrow> jsnum \<Rightarrow> jsnum" where
  "max2 acc x = (if acc = NaN \<or> x = NaN then NaN else if js_lt acc x then x else acc)"

definition Math_max :: "jsnum list \<Rightarrow> jsnum" where
  "Math_max xs = foldl max2 NInf xs"

text \<open>The length of an array as a number.\<close>

definition of_length :: "nat \<Rightarrow> jsnum" where
  "of_length n = fl (of_nat n)"

section \<open>Numbers as strings\<close>

definition digit :: "nat \<Rightarrow> char" where
  "digit d = ''0123456789'' ! d"

text \<open>The decimal digits of a non-negative integer, most significant first.\<close>

function decimal :: "int \<Rightarrow> string" where
  "decimal n =
     (if n < 10 then [digit (nat n)] else decimal (n div 10) @ [digit (nat (n mod 10))])"
  by pat_completeness auto
termination
  by (relation "measure nat") auto

declare decimal.simps [simp del]

text \<open>The number of decimal digits of a positive integer.\<close>

function ndigits :: "int \<Rightarrow> int" where
  "ndigits n = (if 0 < n then ndigits (n div 10) + 1 else 0)"
  by pat_completeness auto
termination
  by (relation "measure nat") auto

declare ndigits.simps [simp del]

definition pow10 :: "int \<Rightarrow> rat" where
  "pow10 e = (if 0 \<le> e then 10 ^ nat e else 1 / 10 ^ nat (- e))"

text \<open>\<open>dec_exp a\<close> is the integer \<open>n\<close> with \<open>10^(n-1) \<le> a < 10^n\<close>, for positive \<open>a\<close>.\<close>

definition dec_exp :: "rat \<Rightarrow> int" where
  "dec_exp a = (case quotient_of a of (p, q) \<Rightarrow>
     (let e = ndigits p - ndigits q in if pow10 e \<le> a then e + 1 else e))"

text \<open>
  \<open>Number::toString\<close> of the language standard looks for integers \<open>n\<close>, \<open>k\<close>, \<open>s\<close> with
  \<open>10^(k-1) \<le> s < 10^k\<close> such that \<open>s * 10^(n-k)\<close> reads back as the number, \<open>k\<close> as small
  as possible, and among several \<open>s\<close> the one closest to the number (the even one on a
  tie). \<open>candidate a n k\<close> is that \<open>s\<close> for a given \<open>k\<close>, if there is one: only the two
  \<open>k\<close>-digit neighbours of \<open>a\<close> need to be tried.
\<close>

definition candidate :: "rat \<Rightarrow> int \<Rightarrow> nat \<Rightarrow> int option" where
  "candidate a n k =
     (let scale = pow10 (n - int k);
          lo = \<lfloor>a / scale\<rfloor>;
          hi = lo + 1;
          ok_lo = (fl (of_int lo * scale) = Fin a);
          ok_hi = (fl (of_int hi * scale) = Fin a);
          dl = a - of_int lo * scale;
          dh = of_int hi * scale - a
      in if ok_lo \<and> (\<not> ok_hi \<or> dl < dh \<or> (dl = dh \<and> even lo)) then Some lo
         else if ok_hi then Some hi
         else None)"

text \<open>
  The search for the smallest \<open>k\<close>. Seventeen digits always read back as the same double,
  so the last branch is never taken for a double. When the candidate is \<open>10^k\<close> itself,
  the digits are those of \<open>10^(k-1)\<close> one decimal place higher.
\<close>

function shortest :: "rat \<Rightarrow> int \<Rightarrow> nat \<Rightarrow> int \<times> nat \<times> int" where
  "shortest a n k =
     (case candidate a n k of
        Some s \<Rightarrow> (if s = 10 ^ k then (10 ^ (k - 1), k, n + 1) else (s, k, n))
      | None \<Rightarrow> (if k < 17 then shortest a n (k + 1)
                 else (\<lfloor>a / pow10 (n - int k)\<rfloor>, k, n)))"
  by pat_completeness auto
termination
  by (relation "measure (\<lambda>(a, n, k). 17 - k)") auto

declare shortest.simps [simp del]

definition exponent_part :: "int \<Rightarrow> string" where
  "exponent_part n =
     ''e'' @ (if 0 \<le> n - 1 then ''+'' else ''-'') @ decimal \<bar>n - 1\<bar>"

definition positive_toString :: "rat \<Rightarrow> string" where
  "positive_toString a =
     (case shortest a (dec_exp a) 1 of (s, k, n) \<Rightarrow>
        (let ds = decimal s in
         if int k \<le> n \<and> n \<le> 21 then ds @ replicate (nat (n - int k)) (CHR ''0'')
         else if 0 < n \<and> n \<le> 21 then take (nat n) ds @ ''.'' @ drop (nat n) ds
         else if - 6 < n \<and> n \<le> 0 then ''0.'' @ replicate (nat (- n)) (CHR ''0'') @ ds
         else if k = 1 then ds @ exponent_part n
         else take 1 ds @ ''.'' @ drop 1 ds @ exponent_part n))"

text \<open>The string a number becomes in a template literal \<^verbatim>\<open>`${value}`\<close>.\<close>

definition Number_toString :: "jsnum \<Rightarrow> string" where
  "Number_toString x =
     (case x of
        NaN \<Rightarrow> ''NaN''
      | PInf \<Rightarrow> ''Infinity''
      | NInf \<Rightarrow> ''-Infinity''
      | Fin q \<Rightarrow> (if q = 0 then ''0''
                  else if q < 0 then ''-'' @ positive_toString (- q)
                  else positive_toString q))"

text \<open>
  \<open>x.toFixed(f)\<close>, for \<open>f\<close> from 0 to 100 (the program passes 1 and 3): a number that is
  not finite prints as in \<open>Number_toString\<close>; a magnitude
  of at least \<open>10^21\<close> prints as in \<open>Number_toString\<close> too; otherwise the integer \<open>n\<close>
  nearest to \<open>x * 10^f\<close> (the larger one on a tie) is printed with a decimal point before
  its last \<open>f\<close> digits, padded with zeros on the left to \<open>f + 1\<close> digits.
\<close>

definition toFixed :: "jsnum \<Rightarrow> nat \<Rightarrow> string" where
  "toFixed x f =
     (case x of
        Fin q \<Rightarrow>
          (let s = (if q < 0 then ''-'' else []); a = \<bar>q\<bar> in
           if 10 ^ 21 \<le> a then s @ Number_toString (Fin a)
           else
             (let m = decimal \<lfloor>a * 10 ^ f + 1 / 2\<rfloor> in
              if f = 0 then s @ m
              else
                (let m' = (if length m \<le> f
                           then replicate (f + 1 - length m) (CHR ''0'') @ m else m);
                     k = length m'
                 in s @ take (k - f) m' @ ''.'' @ drop (k - f) m')))
      | _ \<Rightarrow> Number_toString x)"

section \<open>Dashboard: the sample data and the metrics\<close>

record PerformanceData =
  time :: jsnum
  position :: jsnum
  velocity :: jsnum

definition samplePerformanceData :: "PerformanceData list" where
  "samplePerformanceData =
     [\<lparr>time = lit 0, position = lit (863 / 1000), velocity = lit 0\<rparr>,
      \<lparr>time = lit (133 / 1000), position = lit (816 / 1000), velocity = lit (8857 / 100000)\<rparr>,
      \<lparr>time = lit (267 / 1000), position = lit (863 / 1000), velocity = lit (177 / 1000)\<rparr>,
      \<lparr>time = lit (400 / 1000), position = lit (863 / 1000), velocity = lit (8857 / 100000)\<rparr>]"

text \<open>
  The three aggregation expressions of \<open>Dashboard\<close>, with the array they read as a
  parameter:
  \<^verbatim>\<open>Math.max(...data.map(d => d.velocity))\<close>,
  \<^verbatim>\<open>data.reduce((sum, d) => sum + d.velocity, 0) / data.length\<close>,
  \<^verbatim>\<open>Math.max(...data.map(d => d.position))\<close>.
\<close>

record Metrics =
  maxVelocity :: jsnum
  avgVelocity :: jsnum
  totalDistance :: jsnum

definition computeMetrics :: "PerformanceData list \<Rightarrow> Metrics" where
  "computeMetrics data =
     \<lparr>maxVelocity = Math_max (map velocity data),
      avgVelocity = js_div (foldl (\<lambda>sum d. js_add sum (velocity d)) (lit 0) data)
                      (of_length (length data)),
      totalDistance = Math_max (map position data)\<rparr>"

section \<open>PerformanceChart\<close>

text \<open>
  The component hands \<open>data\<close> and \<open>dataKey\<close> to the chart library, which draws one point
  per element of \<open>data\<close>: its x is the element's \<open>time\<close> (the x axis has the literal
  data key \<open>time\<close>), its y is the element's property named \<open>dataKey\<close>. The props type
  restricts \<open>dataKey\<close> to the two literals \<open>position\<close> and \<open>velocity\<close> when the program is
  compiled; at run time it is a string, and reading a property the element does not have
  gives no number (\<open>None\<close>).
\<close>

definition field :: "string \<Rightarrow> PerformanceData \<Rightarrow> jsnum option" where
  "field dataKey d =
     (if dataKey = ''time'' then Some (time d)
      else if dataKey = ''position'' then Some (position d)
      else if dataKey = ''velocity'' then Some (velocity d)
      else None)"

record ChartPoint =
  pt_x :: jsnum
  pt_y :: "jsnum option"

definition project :: "PerformanceData list \<Rightarrow> string \<Rightarrow> ChartPoint list" where
  "project data dataKey = map (\<lambda>d. \<lparr>pt_x = time d, pt_y = field dataKey d\<rparr>) data"

definition strokeColor :: "string \<Rightarrow> string" where
  "strokeColor dataKey = (if dataKey = ''velocity'' then ''#8B8AC4'' else ''#A2AADB'')"

text \<open>The tick formatters of the two axes and the two formatters of the tooltip.\<close>

definition tickFormatterX :: "jsnum \<Rightarrow> string" where
  "tickFormatterX v = Number_toString v @ ''s''"

definition tickFormatterY :: "string \<Rightarrow> jsnum \<Rightarrow> string" where
  "tickFormatterY dataKey v =
     (if dataKey = ''velocity'' then Number_toString v @ ''m/s''
      else Number_toString v @ ''m'')"

definition labelFormatter :: "jsnum \<Rightarrow> string" where
  "labelFormatter v = ''Time: '' @ Number_toString v @ ''s''"

definition formatter :: "string \<Rightarrow> jsnum \<Rightarrow> string \<times> string" where
  "formatter dataKey v =
     (toFixed v 3 @ (if dataKey = ''velocity'' then ''m/s'' else ''m''),
      if dataKey = ''velocity'' then ''Velocity'' else ''Position'')"

record ChartView =
  chart_title :: string
  chart_kind :: string
  chart_points :: "ChartPoint list"
  chart_stroke :: string

definition PerformanceChart :: "PerformanceData list \<Rightarrow> string \<Rightarrow> string \<Rightarrow> string \<Rightarrow> ChartView" where
  "PerformanceChart data title type dataKey =
     \<lparr>chart_title = title,
      chart_kind = (if type = ''line'' then ''LineChart'' else ''BarChart''),
      chart_points = project data dataKey,
      chart_stroke = strokeColor dataKey\<rparr>"

section \<open>VideoUploadCard\<close>

text \<open>Of a \<open>File\<close> the program reads the name and the MIME type.\<close>

record File =
  name :: string
  type :: string

text \<open>
  The handlers of one card. \<open>onUpload\<close> is the callback prop, a transition of the parent's
  state; \<open>isDragging\<close> is the card's own state. The list of files of a change event can
  be missing (\<open>None\<close>); \<open>files[0]\<close> of an empty list is undefined, and nothing happens.
\<close>

definition handleFileChange :: "(File \<Rightarrow> 's \<Rightarrow> 's) \<Rightarrow> File list option \<Rightarrow> 's \<Rightarrow> 's" where
  "handleFileChange onUpload files st =
     (case files of
        None \<Rightarrow> st
      | Some [] \<Rightarrow> st
      | Some (file # _) \<Rightarrow> (if prefix ''video/'' (type file) then onUpload file st else st))"

definition handleDrop :: "(File \<Rightarrow> 's \<Rightarrow> 's) \<Rightarrow> File list \<Rightarrow> bool \<times> 's \<Rightarrow> bool \<times> 's" where
  "handleDrop onUpload files cs =
     (case files of
        [] \<Rightarrow> (False, snd cs)
      | file # _ \<Rightarrow>
          (False, if prefix ''video/'' (type file) then onUpload file (snd cs) else snd cs))"

definition handleDragOver :: "bool \<times> 's \<Rightarrow> bool \<times> 's" where
  "handleDragOver cs = (True, snd cs)"

definition handleDragLeave :: "bool \<times> 's \<Rightarrow> bool \<times> 's" where
  "handleDragLeave cs = (False, snd cs)"

section \<open>Dashboard\<close>

datatype userRole = admin | coach | runner

record VideoRange =
  range' :: string
  distance :: string
  key :: string

definition videoRanges :: "VideoRange list" where
  "videoRanges =
     [\<lparr>range' = ''Range 1'', distance = ''0-25 meters'', key = ''0-25''\<rparr>,
      \<lparr>range' = ''Range 2'', distance = ''25-50 meters'', key = ''25-50''\<rparr>,
      \<lparr>range' = ''Range 3'', distance = ''50-75 meters'', key = ''50-75''\<rparr>,
      \<lparr>range' = ''Range 4'', distance = ''75-100 meters'', key = ''75-100''\<rparr>]"

text \<open>
  The state of the component: the object \<open>uploadedVideos\<close>, initially \<open>{}\<close>, and what was
  written to the console.
\<close>

record DashboardState =
  uploadedVideos :: "string \<rightharpoonup> bool"
  console :: "string list"

definition initialState :: DashboardState where
  "initialState = \<lparr>uploadedVideos = Map.empty, console = []\<rparr>"

definition handleVideoUpload :: "string \<Rightarrow> File \<Rightarrow> DashboardState \<Rightarrow> DashboardState" where
  "handleVideoUpload rng file st =
     st\<lparr>console := console st @ [''Uploading video for '' @ rng @ '': '' @ name file],
        uploadedVideos := (uploadedVideos st)(rng \<mapsto> True)\<rparr>"

text \<open>The \<open>isUploaded\<close> prop of a card: \<^verbatim>\<open>uploadedVideos[range.key] || false\<close>.\<close>

definition isUploaded :: "DashboardState \<Rightarrow> string \<Rightarrow> bool" where
  "isUploaded st k = (case uploadedVideos st k of Some b \<Rightarrow> b | None \<Rightarrow> False)"

text \<open>
  The events of the upload tab, each on the card of one key, and the state they act on:
  the state of the dashboard and the \<open>isDragging\<close> flag of every card. There is a card for
  each entry of \<open>videoRanges\<close> and no other; the file input of a card is rendered only
  while the card is not uploaded, the drop zone always.
\<close>

datatype event =
    FileChange string "File list option"
  | Drop string "File list"
  | DragOver string
  | DragLeave string

record UiState =
  dashboard :: DashboardState
  isDragging :: "string \<Rightarrow> bool"

definition initialUi :: UiState where
  "initialUi = \<lparr>dashboard = initialState, isDragging = (\<lambda>k. False)\<rparr>"

definition event_key :: "event \<Rightarrow> string" where
  "event_key e = (case e of FileChange k _ \<Rightarrow> k | Drop k _ \<Rightarrow> k | DragOver k \<Rightarrow> k | DragLeave k \<Rightarrow> k)"

definition card_step :: "string \<Rightarrow> event \<Rightarrow> bool \<times> DashboardState \<Rightarrow> bool \<times> DashboardState" where
  "card_step k e cs =
     (case e of
        FileChange _ files \<Rightarrow>
          (if isUploaded (snd cs) k then cs
           else (fst cs, handleFileChange (handleVideoUpload k) files (snd cs)))
      | Drop _ files \<Rightarrow> handleDrop (handleVideoUpload k) files cs
      | DragOver _ \<Rightarrow> handleDragOver cs
      | DragLeave _ \<Rightarrow> handleDragLeave cs)"

definition step :: "UiState \<Rightarrow> event \<Rightarrow> UiState" where
  "step ui e =
     (let k = event_key e in
      if k \<in> set (map key videoRanges) then
        (case card_step k e (isDragging ui k, dashboard ui) of
           (dragging, st) \<Rightarrow> \<lparr>dashboard = st, isDragging = (isDragging ui)(k := dragging)\<rparr>)
      else ui)"

definition run :: "event list \<Rightarrow> UiState" where
  "run es = foldl step initialUi es"

text \<open>What the component renders: the heading, the upload cards, the four statistics
  cards and the two charts of the analysis tab, and whether the system report is offered.\<close>

record UploadCardView =
  card_range :: string
  card_distance :: string
  card_isUploaded :: bool

record StatsCard =
  stat_title :: string
  stat_value :: string
  stat_unit :: string
  stat_description :: string

record DashboardView =
  heading :: string
  uploadCards :: "UploadCardView list"
  stats :: "StatsCard list"
  charts :: "ChartView list"
  systemReport :: bool

definition Dashboard :: "userRole \<Rightarrow> DashboardState \<Rightarrow> DashboardView" where
  "Dashboard role st =
     (let m = computeMetrics samplePerformanceData in
      \<lparr>heading = (if role = admin then ''System Overview''
                   else if role = coach then ''Athlete Performance''
                   else ''My Running Performance''),
       uploadCards = map (\<lambda>r. \<lparr>card_range = range' r, card_distance = distance r,
                                card_isUploaded = isUploaded st (key r)\<rparr>) videoRanges,
       stats =
         [\<lparr>stat_title = ''Max Velocity'', stat_value = toFixed (maxVelocity m) 3,
           stat_unit = ''m/s'', stat_description = ''Peak speed achieved''\<rparr>,
          \<lparr>stat_title = ''Avg Velocity'', stat_value = toFixed (avgVelocity m) 3,
           stat_unit = ''m/s'', stat_description = ''Average speed''\<rparr>,
          \<lparr>stat_title = ''Total Distance'', stat_value = toFixed (totalDistance m) 1,
           stat_unit = ''m'', stat_description = ''Distance covered''\<rparr>,
          \<lparr>stat_title = ''Analysis Time'', stat_value = ''0.400'',
           stat_unit = ''s'', stat_description = ''Total analysis duration''\<rparr>],
       charts =
         [PerformanceChart samplePerformanceData ''Position vs Time'' ''line'' ''position'',
          PerformanceChart samplePerformanceData ''Velocity vs Time'' ''bar'' ''velocity''],
       systemReport = (role = admin)\<rparr>)"

section \<open>The notions of the specification\<close>

text \<open>
  A series, as the specification's data model has it: not empty, every field a finite
  number, time and position not negative, time strictly increasing.
\<close>

fun is_finite :: "jsnum \<Rightarrow> bool" where
  "is_finite (Fin _) = True"
| "is_finite _ = False"

definition wellformed_sample :: "PerformanceData \<Rightarrow> bool" where
  "wellformed_sample d \<longleftrightarrow>
     is_finite (time d) \<and> is_finite (position d) \<and> is_finite (velocity d) \<and>
     js_le (Fin 0) (time d) \<and> js_le (Fin 0) (position d)"

definition Series :: "PerformanceData list \<Rightarrow> bool" where
  "Series S \<longleftrightarrow> S \<noteq> [] \<and> list_all wellformed_sample S \<and> sorted_wrt js_lt (map time S)"




text \<open>
  The mean of rationals \<open>qs\<close> is computed without rounding when every running sum and the
  quotient are doubles themselves.
\<close>

fun the_rat :: "jsnum \<Rightarrow> rat" where
  "the_rat (Fin q) = q"
| "the_rat _ = 0"



text \<open>
  A string is a number written with exactly \<open>f\<close> decimal places: an optional minus sign,
  at least one digit, a point, and \<open>f\<close> digits.
\<close>

definition is_digit :: "char \<Rightarrow> bool" where
  "is_digit c \<longleftrightarrow> c \<in> set ''0123456789''"

definition fixed_decimals :: "nat \<Rightarrow> string \<Rightarrow> bool" where
  "fixed_decimals f s \<longleftrightarrow>
     (let t = (if take 1 s = ''-'' then drop 1 s else s); n = length t in
      f + 2 \<le> n \<and>
      list_all is_digit (take (n - f - 1) t) \<and>
      t ! (n - f - 1) = CHR ''.'' \<and>
      list_all is_digit (drop (n - f) t))"

section \<open>Example series\<close>



section \<open>Auxiliary facts\<close>











lemma round_half_even_of_int: "round_half_even (of_int k) = k"
  by (simp add: round_half_even_def)

lemma ilog2_nat_bounds:
  assumes "0 < n" and "n < 2 ^ 53"
  shows "- 1 \<le> ilog2 (of_nat n) \<and> ilog2 (of_nat n) \<le> 52"
proof -
  have b1: "bitlen (int n) \<le> 53" using assms(2) by (simp add: bitlen_le_iff_power)
  have b2: "1 \<le> bitlen (int n)" using assms(1) by (simp add: bitlen_ge_iff_power)
  have b3: "bitlen 1 = 1" by (simp add: bitlen_alt_def)
  show ?thesis using b1 b2 b3 by (auto simp: ilog2_def Let_def)
qed

lemma fl_of_nat:
  assumes "n < 2 ^ 53"
  shows "fl (of_nat n) = Fin (of_nat n)"
proof (cases "n = 0")
  case True
  then show ?thesis by (simp add: fl_def)
next
  case False
  define e where "e = ilog2 (of_nat n)"
  have e: "- 1 \<le> e" "e \<le> 52" using ilog2_nat_bounds [of n] False assms by (auto simp: e_def)
  define k where "k = nat (52 - e)"
  have p: "pow2 (e - 52) = 1 / 2 ^ k" using e by (auto simp: pow2_def k_def)
  have d: "(of_nat n :: rat) / pow2 (e - 52) = of_int (int n * 2 ^ k)" by (simp add: p)
  have r: "round_half_even ((of_nat n :: rat) * 2 ^ k) = int n * 2 ^ k"
    using round_half_even_of_int [of "int n * 2 ^ k"] by simp
  have m: "max e (- 1022) = e" using e by simp
  show ?thesis using False e
    by (simp add: fl_def Let_def e_def [symmetric] m p r)
qed

lemma of_length_exact: "n < 2 ^ 53 \<Longrightarrow> of_length n = Fin (of_nat n)"
  by (simp add: of_length_def fl_of_nat)







section \<open>The sample data evaluated\<close>

lemma fl_0: "fl 0 = Fin 0"
  by (simp add: fl_def)

lemma lit_0: "lit 0 = Fin 0"
  by (simp add: lit_def fl_def)

lemma lit_1: "lit 1 = Fin 1"
  by code_simp

lemma lit_2: "lit 2 = Fin 2"
  by code_simp

lemma lit_863: "lit (863 / 1000) = Fin (1943303239210369 / 2251799813685248)"
  by code_simp

lemma lit_816: "lit (816 / 1000) = Fin (7349874591868649 / 9007199254740992)"
  by code_simp

lemma lit_133: "lit (133 / 1000) = Fin (149744687610069 / 1125899906842624)"
  by code_simp

lemma lit_267: "lit (267 / 1000) = Fin (2404922201015845 / 9007199254740992)"
  by code_simp

lemma lit_400: "lit (400 / 1000) = Fin (3602879701896397 / 9007199254740992)"
  by code_simp

lemma lit_8857: "lit (8857 / 100000) = Fin (6382141103939277 / 72057594037927936)"
  by code_simp

lemma lit_177: "lit (177 / 1000) = Fin (3188548536178311 / 18014398509481984)"
  by code_simp

lemma lit_tenth: "lit (1 / 10) = Fin (3602879701896397 / 36028797018963968)"
  by code_simp

lemmas lit_values = lit_0 lit_1 lit_2 lit_863 lit_816 lit_133 lit_267 lit_400 lit_8857 lit_177
  lit_tenth

lemma sample_values:
  "samplePerformanceData =
     [\<lparr>time = Fin 0, position = Fin (1943303239210369 / 2251799813685248), velocity = Fin 0\<rparr>,
      \<lparr>time = Fin (149744687610069 / 1125899906842624),
       position = Fin (7349874591868649 / 9007199254740992),
       velocity = Fin (6382141103939277 / 72057594037927936)\<rparr>,
      \<lparr>time = Fin (2404922201015845 / 9007199254740992),
       position = Fin (1943303239210369 / 2251799813685248),
       velocity = Fin (3188548536178311 / 18014398509481984)\<rparr>,
      \<lparr>time = Fin (3602879701896397 / 9007199254740992),
       position = Fin (1943303239210369 / 2251799813685248),
       velocity = Fin (6382141103939277 / 72057594037927936)\<rparr>]"
  unfolding samplePerformanceData_def lit_values by (rule refl)

text \<open>The roundings met when the mean of the sample velocities is computed.\<close>

lemma fl_sample_1:
  "fl (6382141103939277 / 72057594037927936) = Fin (6382141103939277 / 72057594037927936)"
  by code_simp

lemma fl_sample_2:
  "fl (19136335248652521 / 72057594037927936) = Fin (2392041906081565 / 9007199254740992)"
  by code_simp

lemma fl_sample_3:
  "fl (25518476352591797 / 72057594037927936) = Fin (6379619088147949 / 18014398509481984)"
  by code_simp

lemma fl_sample_4:
  "fl (6379619088147949 / 72057594037927936) = Fin (6379619088147949 / 72057594037927936)"
  by code_simp

lemma sample_metrics:
  "computeMetrics samplePerformanceData =
     \<lparr>maxVelocity = Fin (3188548536178311 / 18014398509481984),
      avgVelocity = Fin (6379619088147949 / 72057594037927936),
      totalDistance = Fin (1943303239210369 / 2251799813685248)\<rparr>"
  by (simp add: computeMetrics_def sample_values Math_max_def max2_def lit_0 of_length_exact
      fl_0 fl_sample_1 fl_sample_2 fl_sample_3 fl_sample_4)







lemma Series_sample: "Series samplePerformanceData"
  by (simp add: Series_def sample_values wellformed_sample_def)




lemma toFixed_sample_max: "toFixed (Fin (3188548536178311 / 18014398509481984)) 3 = ''0.177''"
  by code_simp

lemma toFixed_sample_avg: "toFixed (Fin (6379619088147949 / 72057594037927936)) 3 = ''0.089''"
  by code_simp

lemma toFixed_sample_avg5: "toFixed (Fin (6379619088147949 / 72057594037927936)) 5 = ''0.08853''"
  by code_simp

lemma toFixed_sample_distance: "toFixed (Fin (1943303239210369 / 2251799813685248)) 1 = ''0.9''"
  by code_simp

lemma toFixed_sample_last: "toFixed (Fin (3602879701896397 / 9007199254740992)) 3 = ''0.400''"
  by code_simp

lemma Number_toString_sample_avg:
  "Number_toString (Fin (6379619088147949 / 72057594037927936)) = ''0.08853499999999999''"
  by code_simp

section \<open>Facts about the metrics\<close>




section \<open>Facts about number formatting\<close>

lemma is_digit_digit: "d < 10 \<Longrightarrow> is_digit (digit d)"
proof -
  assume "d < 10"
  then have "d < length ''0123456789''" by simp
  then have "''0123456789'' ! d \<in> set ''0123456789''" by (rule nth_mem)
  then show ?thesis by (simp only: is_digit_def digit_def)
qed

lemma decimal_digits: "decimal n \<noteq> [] \<and> list_all is_digit (decimal n)"
proof (induction n rule: decimal.induct)
  case (1 n)
  show ?case
  proof (cases "n < 10")
    case True
    then have "nat n < 10" by simp
    then show ?thesis using True by (simp add: decimal.simps [of n] is_digit_digit)
  next
    case False
    have "nat (n mod 10) < 10" by simp
    then have "is_digit (digit (nat (n mod 10)))" by (rule is_digit_digit)
    then show ?thesis using False "1.IH" by (simp add: decimal.simps [of n])
  qed
qed

lemma is_digit_not_minus: "is_digit c \<Longrightarrow> c \<noteq> CHR ''-''"
  by (auto simp: is_digit_def)

lemma fixed_decimals_plain:
  assumes "a \<noteq> []" and "list_all is_digit a" and "list_all is_digit b" and "length b = f"
  shows "fixed_decimals f (a @ ''.'' @ b)"
proof -
  obtain c cs where a: "a = c # cs" using assms(1) by (cases a) auto
  have c: "c \<noteq> CHR ''-''" using assms(2) a by (simp add: is_digit_not_minus)
  have t: "take 1 (a @ ''.'' @ b) \<noteq> ''-''" using a c by simp
  have l: "Suc 0 \<le> length a" using a by simp
  show ?thesis using assms t l
    by (simp add: fixed_decimals_def Let_def nth_append)
qed

lemma fixed_decimals_minus:
  assumes "a \<noteq> []" and "list_all is_digit a" and "list_all is_digit b" and "length b = f"
  shows "fixed_decimals f (''-'' @ a @ ''.'' @ b)"
proof -
  have l: "Suc 0 \<le> length a" using assms(1) by (cases a) auto
  show ?thesis using assms l by (simp add: fixed_decimals_def Let_def nth_append)
qed

lemma toFixed_shape:
  assumes "\<bar>q\<bar> < 10 ^ 21" and "0 < f"
  shows "fixed_decimals f (toFixed (Fin q) f)"
proof -
  define m where "m = decimal \<lfloor>\<bar>q\<bar> * 10 ^ f + 1 / 2\<rfloor>"
  define m' where "m' = (if length m \<le> f then replicate (f + 1 - length m) (CHR ''0'') @ m else m)"
  define a where "a = take (length m' - f) m'"
  define b where "b = drop (length m' - f) m'"
  have m: "m \<noteq> []" "list_all is_digit m" using decimal_digits [of "\<lfloor>\<bar>q\<bar> * 10 ^ f + 1 / 2\<rfloor>"]
    by (simp_all add: m_def)
  have z: "is_digit (CHR ''0'')" by (simp add: is_digit_def)
  have d': "list_all is_digit m'" using m(2) z by (simp add: m'_def list_all_iff)
  have l': "f < length m'" using m(1) by (auto simp: m'_def)
  have a: "a \<noteq> []" "list_all is_digit a" using d' l' by (auto simp: a_def list_all_iff dest: in_set_takeD)
  have b: "list_all is_digit b" "length b = f" using d' l' by (auto simp: b_def list_all_iff dest: in_set_dropD)
  have r: "toFixed (Fin q) f = (if q < 0 then ''-'' else []) @ a @ ''.'' @ b"
    using assms by (simp add: toFixed_def Let_def m_def [symmetric] m'_def [symmetric] a_def b_def)
  show ?thesis
    using fixed_decimals_plain [OF a b] fixed_decimals_minus [OF a b] by (simp add: r)
qed

lemma lit_10_21: "lit (10 ^ 21) = Fin (10 ^ 21)"
  by code_simp

lemma toFixed_10_21: "toFixed (Fin (10 ^ 21)) 3 = ''1e+21''"
  by code_simp

lemma not_fixed_1e21: "\<not> fixed_decimals 3 ''1e+21''"
  by (simp add: fixed_decimals_def Let_def is_digit_def)

lemma Number_toString_sample_max:
  "Number_toString (Fin (3188548536178311 / 18014398509481984)) = ''0.177''"
  by code_simp

lemma Number_toString_sample_distance:
  "Number_toString (Fin (1943303239210369 / 2251799813685248)) = ''0.863''"
  by code_simp

section \<open>Facts about the upload handlers\<close>

lemma step_outside: "event_key e \<notin> set (map key videoRanges) \<Longrightarrow> step ui e = ui"
  by (simp add: step_def Let_def)

lemma step_FileChange:
  "k \<in> set (map key videoRanges) \<Longrightarrow>
   dashboard (step ui (FileChange k files)) =
     (if isUploaded (dashboard ui) k then dashboard ui
      else handleFileChange (handleVideoUpload k) files (dashboard ui))"
  by (simp add: step_def Let_def event_key_def card_step_def)

lemma step_Drop:
  "k \<in> set (map key videoRanges) \<Longrightarrow>
   dashboard (step ui (Drop k files)) =
     snd (handleDrop (handleVideoUpload k) files (isDragging ui k, dashboard ui))"
  by (simp add: step_def Let_def event_key_def card_step_def split: prod.split)

lemma step_drag:
  "dashboard (step ui (DragOver k)) = dashboard ui"
  "dashboard (step ui (DragLeave k)) = dashboard ui"
  by (simp_all add: step_def Let_def event_key_def card_step_def handleDragOver_def
      handleDragLeave_def)

lemma isUploaded_handleVideoUpload:
  "isUploaded (handleVideoUpload k f st) k' = (if k' = k then True else isUploaded st k')"
  by (simp add: isUploaded_def handleVideoUpload_def)

lemma handleFileChange_first:
  "handleFileChange onUpload (Some (f # fs)) st =
     (if prefix ''video/'' (type f) then onUpload f st else st)"
  by (simp add: handleFileChange_def)

lemma handleDrop_first:
  "handleDrop onUpload (f # fs) cs =
     (False, if prefix ''video/'' (type f) then onUpload f (snd cs) else snd cs)"
  by (simp add: handleDrop_def)

section \<open>The claims\<close>

text \<open>
  C1 (as amended). The claim has the aggregation of the empty series fail with an
  \<open>EmptySeriesError\<close>. The three expressions have no guard and raise nothing: on the
  empty array \<open>Math.max\<close> of no arguments is \<open>-Infinity\<close> and the sum \<open>0\<close> divided by
  the length \<open>0\<close> is \<open>NaN\<close>. The component itself evaluates them on the array of four
  samples only.
\<close>

theorem computeMetrics_empty:
  "computeMetrics [] = \<lparr>maxVelocity = NInf, avgVelocity = NaN, totalDistance = NInf\<rparr> \<and>
   length samplePerformanceData = 4"
  by (simp add: computeMetrics_def Math_max_def of_length_def fl_def lit_def
      samplePerformanceData_def)

text \<open>
  The claim as stated fails at the empty series: the result is a value, and it holds
  \<open>NaN\<close> and \<open>-Infinity\<close>.
\<close>

theorem computeMetrics_empty_counterexample:
  "avgVelocity (computeMetrics []) = NaN \<and> maxVelocity (computeMetrics []) = NInf \<and>
   totalDistance (computeMetrics []) = NInf"
  by (simp add: computeMetrics_def Math_max_def of_length_def fl_def lit_def)



text \<open>
  C3 (as amended). For the four samples of the component the maximal velocity is the
  double \<open>0.177\<close> and the total distance the double \<open>0.863\<close>; the average velocity is
  \<open>0.08853499999999999\<close>, shown as \<open>0.089\<close> with three decimals. No duration is
  computed: the fourth card shows the literal \<open>0.400\<close>, which is the time of the last
  sample printed with three decimals, the first sample being at time \<open>0\<close>.
\<close>

theorem sample_metrics_values:
  "maxVelocity (computeMetrics samplePerformanceData) = lit (177 / 1000) \<and>
   Number_toString (maxVelocity (computeMetrics samplePerformanceData)) = ''0.177'' \<and>
   Number_toString (avgVelocity (computeMetrics samplePerformanceData)) = ''0.08853499999999999'' \<and>
   toFixed (avgVelocity (computeMetrics samplePerformanceData)) 3 = ''0.089'' \<and>
   totalDistance (computeMetrics samplePerformanceData) = lit (863 / 1000) \<and>
   Number_toString (totalDistance (computeMetrics samplePerformanceData)) = ''0.863'' \<and>
   stat_value (stats (Dashboard role st) ! 3) = ''0.400'' \<and>
   time (hd samplePerformanceData) = lit 0 \<and>
   time (last samplePerformanceData) = lit (400 / 1000) \<and>
   toFixed (time (last samplePerformanceData)) 3 = ''0.400''"
proof -
  have t: "time (hd samplePerformanceData) = lit 0"
    "time (last samplePerformanceData) = lit (400 / 1000)"
    by (simp_all add: samplePerformanceData_def)
  have d: "stat_value (stats (Dashboard role st) ! 3) = ''0.400''"
    by (simp add: Dashboard_def Let_def)
  show ?thesis
    unfolding t lit_values sample_metrics
    using d by (simp add: Number_toString_sample_max Number_toString_sample_avg
        toFixed_sample_avg Number_toString_sample_distance toFixed_sample_last)
qed

text \<open>
  The claim gives the average as about \<open>0.08879\<close>. The value computed is below
  \<open>0.08854\<close>; with five decimals it prints as \<open>0.08853\<close>.
\<close>

theorem sample_avg_counterexample:
  "toFixed (avgVelocity (computeMetrics samplePerformanceData)) 5 = ''0.08853'' \<and>
   the_rat (avgVelocity (computeMetrics samplePerformanceData)) < 8854 / 100000"
  by (simp add: sample_metrics toFixed_sample_avg5)




text \<open>
  C5. For every series, the projections on \<open>position\<close> and on \<open>velocity\<close> have one
  point per sample, in the order of the series: both have the length of the series, the
  x values of both are the times of the samples, the y values are the positions and the
  velocities, and the x values increase strictly.
\<close>

theorem project_points:
  assumes "Series S"
  shows "length (project S ''position'') = length S \<and>
         length (project S ''velocity'') = length S \<and>
         map pt_x (project S ''position'') = map time S \<and>
         map pt_x (project S ''velocity'') = map time S \<and>
         map pt_y (project S ''position'') = map (\<lambda>d. Some (position d)) S \<and>
         map pt_y (project S ''velocity'') = map (\<lambda>d. Some (velocity d)) S \<and>
         sorted_wrt js_lt (map pt_x (project S ''position'')) \<and>
         sorted_wrt js_lt (map pt_x (project S ''velocity''))"
proof -
  have x: "map pt_x (project S k) = map time S" for k
    by (simp add: project_def comp_def)
  have s: "sorted_wrt js_lt (map time S)" using assms by (simp add: Series_def)
  show ?thesis unfolding x using s by (simp add: project_def field_def comp_def)
qed

theorem project_points_witness:
  "Series samplePerformanceData \<and>
   length (project samplePerformanceData ''position'') = 4 \<and>
   length (project samplePerformanceData ''velocity'') = 4 \<and>
   map pt_x (project samplePerformanceData ''position'') =
     [lit 0, lit (133 / 1000), lit (267 / 1000), lit (400 / 1000)] \<and>
   map pt_x (project samplePerformanceData ''velocity'') =
     [lit 0, lit (133 / 1000), lit (267 / 1000), lit (400 / 1000)] \<and>
   sorted_wrt js_lt (map pt_x (project samplePerformanceData ''position'')) \<and>
   sorted_wrt js_lt (map pt_x (project samplePerformanceData ''velocity''))"
proof -
  have l: "length samplePerformanceData = 4"
    "map time samplePerformanceData = [lit 0, lit (133 / 1000), lit (267 / 1000), lit (400 / 1000)]"
    by (simp_all add: samplePerformanceData_def)
  note T = project_points [OF Series_sample]
  have a: "length (project samplePerformanceData ''position'') = 4"
    "length (project samplePerformanceData ''velocity'') = 4"
    using T unfolding l(1) by blast+
  have b: "map pt_x (project samplePerformanceData ''position'') =
      [lit 0, lit (133 / 1000), lit (267 / 1000), lit (400 / 1000)]"
    "map pt_x (project samplePerformanceData ''velocity'') =
      [lit 0, lit (133 / 1000), lit (267 / 1000), lit (400 / 1000)]"
    using T unfolding l(2) by blast+
  have c: "sorted_wrt js_lt (map pt_x (project samplePerformanceData ''position''))"
    "sorted_wrt js_lt (map pt_x (project samplePerformanceData ''velocity''))"
    using T by blast+
  show ?thesis using Series_sample a b c by blast
qed

text \<open>
  C6 (as amended). The claim has a selector other than \<open>position\<close> and \<open>velocity\<close>
  rejected with an \<open>InvalidFieldError\<close>. The props type excludes such a selector when
  the program is compiled, and nothing checks it at run time: the chart still has one
  point per sample, in order, with the time as x and no y value (the time itself for the
  selector \<open>time\<close>), and the formatters treat the selector like \<open>position\<close>.
\<close>

theorem project_unknown_field:
  assumes "dataKey \<noteq> ''position''" and "dataKey \<noteq> ''velocity''"
  shows "length (project S dataKey) = length S \<and>
         map pt_x (project S dataKey) = map time S \<and>
         map pt_y (project S dataKey) =
           map (\<lambda>d. if dataKey = ''time'' then Some (time d) else None) S \<and>
         tickFormatterY dataKey v = Number_toString v @ ''m'' \<and>
         formatter dataKey v = (toFixed v 3 @ ''m'', ''Position'')"
  using assms by (simp add: project_def field_def comp_def tickFormatterY_def formatter_def)

theorem project_unknown_field_witness:
  "''height'' \<noteq> ''position'' \<and> ''height'' \<noteq> ''velocity'' \<and>
   length (project samplePerformanceData ''height'') = 4 \<and>
   map pt_y (project samplePerformanceData ''height'') = [None, None, None, None]"
proof -
  have n: "''height'' \<noteq> ''position''" "''height'' \<noteq> ''velocity''" by simp_all
  have l: "length samplePerformanceData = 4" by (simp add: samplePerformanceData_def)
  have m: "map (\<lambda>d. if ''height'' = ''time'' then Some (time d) else None) samplePerformanceData
      = [None, None, None, None]"
    by (simp add: samplePerformanceData_def)
  show ?thesis using project_unknown_field [OF n, of samplePerformanceData] n l m by simp
qed

text \<open>
  The claim as stated fails for the selector \<open>height\<close> on the sample data: the result
  is a sequence of four points.
\<close>

theorem project_height_counterexample:
  "project samplePerformanceData ''height'' =
     [\<lparr>pt_x = lit 0, pt_y = None\<rparr>, \<lparr>pt_x = lit (133 / 1000), pt_y = None\<rparr>,
      \<lparr>pt_x = lit (267 / 1000), pt_y = None\<rparr>, \<lparr>pt_x = lit (400 / 1000), pt_y = None\<rparr>]"
  by (simp add: project_def field_def samplePerformanceData_def)

text \<open>
  C7. Initially the flag of each of the four segment keys is false (the object is empty
  and a missing key reads as false). A change or drop event on the card of a key whose
  first file has a MIME type starting with \<open>video/\<close> makes the flag of that key true and
  leaves the flag of every other key as it was. When the MIME type of the first file does
  not start with \<open>video/\<close>, the state of the dashboard, flags and console, is unchanged.
\<close>

theorem upload_tracker:
  "map key videoRanges = [''0-25'', ''25-50'', ''50-75'', ''75-100''] \<and>
   map (isUploaded initialState) (map key videoRanges) = [False, False, False, False] \<and>
   (k \<in> set (map key videoRanges) \<and> prefix ''video/'' (type f) \<and>
    (e = FileChange k (Some (f # fs)) \<or> e = Drop k (f # fs)) \<longrightarrow>
      isUploaded (dashboard (step ui e)) k \<and>
      (\<forall>k'. k' \<noteq> k \<longrightarrow>
         isUploaded (dashboard (step ui e)) k' = isUploaded (dashboard ui) k')) \<and>
   (\<not> prefix ''video/'' (type f) \<and>
    (e = FileChange k (Some (f # fs)) \<or> e = Drop k (f # fs)) \<longrightarrow>
      dashboard (step ui e) = dashboard ui)"
proof -
  have keys: "map key videoRanges = [''0-25'', ''25-50'', ''50-75'', ''75-100'']"
    by (simp add: videoRanges_def)
  have init: "map (isUploaded initialState) (map key videoRanges) = [False, False, False, False]"
    by (simp add: videoRanges_def isUploaded_def initialState_def)
  have video: "isUploaded (dashboard (step ui e)) k \<and>
      (\<forall>k'. k' \<noteq> k \<longrightarrow>
         isUploaded (dashboard (step ui e)) k' = isUploaded (dashboard ui) k')"
    if k: "k \<in> set (map key videoRanges)" and v: "prefix ''video/'' (type f)"
      and e: "e = FileChange k (Some (f # fs)) \<or> e = Drop k (f # fs)"
  proof -
    from e show ?thesis
    proof
      assume "e = FileChange k (Some (f # fs))"
      then show ?thesis
        using v by (simp add: step_FileChange [OF k] handleFileChange_first
            isUploaded_handleVideoUpload)
    next
      assume "e = Drop k (f # fs)"
      then show ?thesis
        using v by (simp add: step_Drop [OF k] handleDrop_first isUploaded_handleVideoUpload)
    qed
  qed
  have other: "dashboard (step ui e) = dashboard ui"
    if v: "\<not> prefix ''video/'' (type f)"
      and e: "e = FileChange k (Some (f # fs)) \<or> e = Drop k (f # fs)"
  proof (cases "k \<in> set (map key videoRanges)")
    case True
    from e show ?thesis
    proof
      assume "e = FileChange k (Some (f # fs))"
      then show ?thesis using v by (simp add: step_FileChange [OF True] handleFileChange_first)
    next
      assume "e = Drop k (f # fs)"
      then show ?thesis using v by (simp add: step_Drop [OF True] handleDrop_first)
    qed
  next
    case False
    have "event_key e = k" using e by (auto simp: event_key_def)
    then show ?thesis using False step_outside [of e ui] by simp
  qed
  show ?thesis using keys init video other by blast
qed

theorem upload_tracker_witness:
  "''25-50'' \<in> set (map key videoRanges) \<and>
   prefix ''video/'' (type \<lparr>name = ''run.mp4'', type = ''video/mp4''\<rparr>) \<and>
   \<not> prefix ''video/'' (type \<lparr>name = ''notes.txt'', type = ''text/plain''\<rparr>) \<and>
   map (isUploaded (dashboard (step initialUi
          (Drop ''25-50'' [\<lparr>name = ''run.mp4'', type = ''video/mp4''\<rparr>]))))
     [''0-25'', ''25-50'', ''50-75'', ''75-100''] = [False, True, False, False] \<and>
   dashboard (step initialUi
      (Drop ''25-50'' [\<lparr>name = ''notes.txt'', type = ''text/plain''\<rparr>])) = initialState"
proof -
  let ?v = "\<lparr>name = ''run.mp4'', type = ''video/mp4''\<rparr>"
  let ?t = "\<lparr>name = ''notes.txt'', type = ''text/plain''\<rparr>"
  have k: "''25-50'' \<in> set (map key videoRanges)" by (simp add: videoRanges_def)
  have v: "prefix ''video/'' (type ?v)" by simp
  have t: "\<not> prefix ''video/'' (type ?t)" by simp
  have i: "isUploaded (dashboard initialUi) k' = False" for k'
    by (simp add: initialUi_def initialState_def isUploaded_def)
  have d: "dashboard initialUi = initialState" by (simp add: initialUi_def)
  note T1 = upload_tracker [of "''25-50''" ?v "Drop ''25-50'' [?v]" "[]" initialUi]
  note T2 = upload_tracker [of "''25-50''" ?t "Drop ''25-50'' [?t]" "[]" initialUi]
  have a: "isUploaded (dashboard (step initialUi (Drop ''25-50'' [?v]))) ''25-50''"
    using T1 k v by blast
  have b: "k' \<noteq> ''25-50'' \<Longrightarrow>
      isUploaded (dashboard (step initialUi (Drop ''25-50'' [?v]))) k' = False" for k'
    using T1 k v i by blast
  have c: "dashboard (step initialUi (Drop ''25-50'' [?t])) = initialState"
    using T2 t d by metis
  show ?thesis using k v t a b c by simp
qed

text \<open>
  C8 (as amended). A tick of the time axis is the value followed by \<open>s\<close>; a tick of the
  value axis is the value followed by \<open>m/s\<close> for velocity and by \<open>m\<close> for position; the
  tooltip shows \<open>toFixed(3)\<close> of the value followed by the same unit, which is a number
  with exactly three decimals when the value is finite and of magnitude below \<open>10^21\<close>.
\<close>

theorem chart_labels:
  "tickFormatterX v = Number_toString v @ ''s'' \<and>
   tickFormatterY ''velocity'' v = Number_toString v @ ''m/s'' \<and>
   tickFormatterY ''position'' v = Number_toString v @ ''m'' \<and>
   fst (formatter ''velocity'' v) = toFixed v 3 @ ''m/s'' \<and>
   fst (formatter ''position'' v) = toFixed v 3 @ ''m'' \<and>
   (is_finite v \<and> \<bar>the_rat v\<bar> < 10 ^ 21 \<longrightarrow> fixed_decimals 3 (toFixed v 3))"
proof -
  have "fixed_decimals 3 (toFixed v 3)" if fin: "is_finite v" and bound: "\<bar>the_rat v\<bar> < 10 ^ 21"
  proof -
    obtain q where q: "v = Fin q" using fin by (cases v) auto
    show ?thesis using toFixed_shape [of q 3] bound by (simp add: q)
  qed
  then show ?thesis
    by (simp add: tickFormatterX_def tickFormatterY_def formatter_def)
qed

theorem chart_labels_witness:
  "is_finite (lit (177 / 1000)) \<and> \<bar>the_rat (lit (177 / 1000))\<bar> < 10 ^ 21 \<and>
   fixed_decimals 3 (toFixed (lit (177 / 1000)) 3) \<and>
   toFixed (lit (177 / 1000)) 3 = ''0.177'' \<and>
   fst (formatter ''velocity'' (lit (177 / 1000))) = ''0.177m/s''"
proof -
  have f: "is_finite (lit (177 / 1000))" "\<bar>the_rat (lit (177 / 1000))\<bar> < 10 ^ 21"
    by (simp_all add: lit_177)
  have "fixed_decimals 3 (toFixed (lit (177 / 1000)) 3)"
    using chart_labels [of "lit (177 / 1000)"] f by blast
  moreover have "fst (formatter ''velocity'' (lit (177 / 1000))) = toFixed (lit (177 / 1000)) 3 @ ''m/s''"
    using chart_labels [of "lit (177 / 1000)"] by blast
  ultimately show ?thesis using f by (simp add: lit_177 toFixed_sample_max)
qed

text \<open>
  The claim as stated fails for the position \<open>10^21\<close>: \<open>toFixed(3)\<close> of a magnitude
  of at least \<open>10^21\<close> is the plain string of the number, and the tooltip shows
  \<open>1e+21m\<close>.
\<close>

theorem tooltip_counterexample:
  "fst (formatter ''position'' (lit (10 ^ 21))) = ''1e+21m'' \<and>
   \<not> fixed_decimals 3 (toFixed (lit (10 ^ 21)) 3)"
  unfolding formatter_def lit_10_21 toFixed_10_21 by (simp add: not_fixed_1e21)

text \<open>
  C9. After every sequence of events of the upload tab and for every role, the four
  statistics cards and the two charts of the analysis tab are those of the sample data:
  they do not depend on the state. The value of the fourth card, the analysis time, is the
  literal \<open>0.400\<close>.
\<close>

theorem dashboard_analysis_fixed:
  "stats (Dashboard role (dashboard (run es))) =
     [\<lparr>stat_title = ''Max Velocity'', stat_value = ''0.177'',
       stat_unit = ''m/s'', stat_description = ''Peak speed achieved''\<rparr>,
      \<lparr>stat_title = ''Avg Velocity'', stat_value = ''0.089'',
       stat_unit = ''m/s'', stat_description = ''Average speed''\<rparr>,
      \<lparr>stat_title = ''Total Distance'', stat_value = ''0.9'',
       stat_unit = ''m'', stat_description = ''Distance covered''\<rparr>,
      \<lparr>stat_title = ''Analysis Time'', stat_value = ''0.400'',
       stat_unit = ''s'', stat_description = ''Total analysis duration''\<rparr>] \<and>
   charts (Dashboard role (dashboard (run es))) =
     [PerformanceChart samplePerformanceData ''Position vs Time'' ''line'' ''position'',
      PerformanceChart samplePerformanceData ''Velocity vs Time'' ''bar'' ''velocity''] \<and>
   stats (Dashboard role (dashboard (run es))) = stats (Dashboard runner initialState) \<and>
   charts (Dashboard role (dashboard (run es))) = charts (Dashboard runner initialState)"
  using toFixed_sample_distance
  by (simp add: Dashboard_def Let_def sample_metrics toFixed_sample_max toFixed_sample_avg)



end
